theory Spec2Isabelle
  imports Complex_Main "HOL-Library.Sublist"
begin

section \<open>Power regulation loop of \<^verbatim>\<open>regulation.py\<close>\<close>

text \<open>
  The module keeps its state in globals and drives a tuple of equipment objects through
  their methods. The embedding passes the globals as one record, keeps the equipment
  objects in a list (index 0 is the highest priority) and turns every \<^verbatim>\<open>raise\<close> that
  the \<^verbatim>\<open>try\<close> of \<^verbatim>\<open>evaluate\<close> can catch into a value.
\<close>

subsection \<open>Python values and exceptions\<close>

datatype error = TypeError | ZeroDivisionError

text \<open>
  A value that is either a number or a string: \<^verbatim>\<open>CLOUD_forecast\<close> starts as the number
  999 and is concatenated to a string at line 214.
\<close>

datatype pyval = PyInt int | PyStr string

text \<open>Python's \<^verbatim>\<open>+\<close>: numbers add, strings concatenate, a mix raises \<^verbatim>\<open>TypeError\<close>.\<close>

fun py_add :: "pyval \<Rightarrow> pyval \<Rightarrow> error + pyval" where
  "py_add (PyInt a) (PyInt b) = Inr (PyInt (a + b))"
| "py_add (PyStr a) (PyStr b) = Inr (PyStr (a @ b))"
| "py_add _ _ = Inl TypeError"

subsection \<open>The equipment interface\<close>

text \<open>
  Modelled from the spec: the module \<^verbatim>\<open>equipment\<close> (classes \<^verbatim>\<open>ConstantPowerEquipment\<close>,
  \<^verbatim>\<open>VariablePowerEquipment\<close>, \<^verbatim>\<open>UnknownPowerEquipment\<close>) is imported by \<^verbatim>\<open>regulation.py\<close>
  but is not part of the sources at hand. The regulation loop is therefore parameterised
  by the methods it calls on an equipment object of any state type \<open>'e\<close>. The three
  queries read the object, the other methods return the object they leave behind;
  \<^verbatim>\<open>None\<close> results are \<open>None\<close>. A method acts on its own object only.
\<close>

record 'e equipment_ops =
  name :: "'e \<Rightarrow> string"
  max_power :: "'e \<Rightarrow> int"
  is_forced :: "'e \<Rightarrow> bool"
  get_current_power :: "'e \<Rightarrow> int option"
  get_energy :: "'e \<Rightarrow> int"
  reset_energy :: "'e \<Rightarrow> 'e"
  force :: "'e \<Rightarrow> int option \<Rightarrow> real option \<Rightarrow> 'e"
  decrease_power_by :: "'e \<Rightarrow> int \<Rightarrow> int option \<times> 'e"
  increase_power_by :: "'e \<Rightarrow> int \<Rightarrow> int option \<times> 'e"

text \<open>
  One call of \<^verbatim>\<open>decrease_power_by\<close> as the loops log it (the \<^verbatim>\<open>debug\<close> lines of the
  source): the object before the call, the power asked for and the answer.
\<close>

record 'e call =
  target :: 'e
  requested :: int
  answer :: "int option"

subsection \<open>Configuration constants (lines 99--106 and 93)\<close>

record config =
  EVALUATION_PERIOD :: int
  BALANCE_THRESHOLD :: int
  MARGIN :: int
  LOW_ECS_ENERGY_TWO_DAYS :: int
  LOW_ECS_ENERGY_TODAY :: int
  IDX_INJECTION :: string

subsection \<open>The deficit pass (lines 241--255)\<close>

text \<open>
  \<^verbatim>\<open>for e in reversed(equipments)\<close>: the argument list is the equipment still to visit,
  lowest priority first. The result is the value of \<^verbatim>\<open>excess_power\<close> when the loop is
  left, the visited objects in the same order, and the calls made.
\<close>

fun deficit_loop ::
  "'e equipment_ops \<Rightarrow> int \<Rightarrow> 'e list \<Rightarrow> int \<times> 'e list \<times> 'e call list" where
  "deficit_loop ops excess_power [] = (excess_power, [], [])"
| "deficit_loop ops excess_power (e # es) =
     (if is_forced ops e then
        (case deficit_loop ops excess_power es of
           (x, es', cs) \<Rightarrow> (x, e # es', cs))
      else
        (case decrease_power_by ops e excess_power of
           (None, e') \<Rightarrow>
             (excess_power, e' # es,
              [\<lparr>target = e, requested = excess_power, answer = None\<rparr>])
         | (Some result, e') \<Rightarrow>
             (let c = \<lparr>target = e, requested = excess_power, answer = Some result\<rparr>;
                  excess_power' = excess_power - result
              in if excess_power' \<le> 0 then (excess_power', e' # es, [c])
                 else (case deficit_loop ops excess_power' es of
                         (x, es', cs) \<Rightarrow> (x, e' # es', c # cs)))))"

subsection \<open>The excess pass (lines 264--311)\<close>

text \<open>Lines 281--289: the confirmed power of the lower-priority, non-forced equipment.\<close>

fun freeable_power :: "'e equipment_ops \<Rightarrow> 'e list \<Rightarrow> int" where
  "freeable_power ops [] = 0"
| "freeable_power ops (o' # os) =
     (if is_forced ops o' then freeable_power ops os
      else (case get_current_power ops o' of
              None \<Rightarrow> freeable_power ops os
            | Some p \<Rightarrow> p + freeable_power ops os))"

text \<open>
  Lines 294--303: the recovery loop over the lower-priority equipment, lowest priority
  first. \<^verbatim>\<open>freed_power += result\<close> raises \<^verbatim>\<open>TypeError\<close> when \<^verbatim>\<open>result\<close> is \<^verbatim>\<open>None\<close>; the
  objects keep what the calls made so far did to them.
\<close>

fun recover_loop ::
  "'e equipment_ops \<Rightarrow> int \<Rightarrow> int \<Rightarrow> 'e list \<Rightarrow> (error + int) \<times> 'e list" where
  "recover_loop ops freed_power needed_power [] = (Inr freed_power, [])"
| "recover_loop ops freed_power needed_power (o' # os) =
     (if is_forced ops o' then
        (case recover_loop ops freed_power needed_power os of
           (r, os') \<Rightarrow> (r, o' # os'))
      else
        (case decrease_power_by ops o' needed_power of
           (None, o'') \<Rightarrow> (Inl TypeError, o'' # os)
         | (Some result, o'') \<Rightarrow>
             (let freed_power' = freed_power + result;
                  needed_power' = needed_power - result
              in if needed_power' \<le> 0 then (Inr freed_power', o'' # os)
                 else (case recover_loop ops freed_power' needed_power' os of
                         (r, os') \<Rightarrow> (r, o'' # os')))))"

lemma length_recover_loop:
  "recover_loop ops f n os = (r, os') \<Longrightarrow> length os' = length os"
  by (induction os arbitrary: f n r os')
     (auto split: prod.splits option.splits if_splits simp: Let_def)

text \<open>
  Lines 293--303 on \<^verbatim>\<open>equipments[i+1:]\<close>, given in priority order: the loop runs over
  the reversed range and the objects stay at their places.
\<close>

definition recover :: "'e equipment_ops \<Rightarrow> int \<Rightarrow> 'e list \<Rightarrow> (error + int) \<times> 'e list" where
  "recover ops needed_power lower =
     (case recover_loop ops 0 needed_power (rev lower) of
        (r, os') \<Rightarrow> (r, rev os'))"

lemma length_recover:
  "recover ops n lower = (r, lower') \<Longrightarrow> length lower' = length lower"
  by (auto simp: recover_def split: prod.splits dest: length_recover_loop)

text \<open>
  \<^verbatim>\<open>for i, e in enumerate(equipments)\<close>: the argument list is \<^verbatim>\<open>equipments[i:]\<close>.
  \<^verbatim>\<open>available_power\<close> is \<open>None\<close> when the retried \<^verbatim>\<open>increase_power_by\<close> of line 306
  answered \<^verbatim>\<open>None\<close>; the comparison of line 265 then raises \<^verbatim>\<open>TypeError\<close>.
\<close>

function increase_loop ::
  "'e equipment_ops \<Rightarrow> int option \<Rightarrow> 'e list \<Rightarrow> error option \<times> 'e list" where
  "increase_loop ops available_power [] = (None, [])"
| "increase_loop ops available_power (e # lower) =
     (case available_power of
        None \<Rightarrow> (Some TypeError, e # lower)
      | Some available \<Rightarrow>
          if available \<le> 0 then (None, e # lower)
          else if is_forced ops e then
            (case increase_loop ops available_power lower of
               (x, lower') \<Rightarrow> (x, e # lower'))
          else
            (case increase_power_by ops e available of
               (None, e') \<Rightarrow> (None, e' # lower)
             | (Some result, e') \<Rightarrow>
                 if result = 0 then (None, e' # lower)
                 else if result < 0 then
                   (let needed_power = - result in
                    if freeable_power ops lower \<ge> needed_power then
                      (case recover ops needed_power lower of
                         (Inl err, lower') \<Rightarrow> (Some err, e' # lower')
                       | (Inr freed_power, lower') \<Rightarrow>
                           (case increase_power_by ops e' (available + freed_power) of
                              (available_power', e'') \<Rightarrow>
                                (case increase_loop ops available_power' lower' of
                                   (x, lower'') \<Rightarrow> (x, e'' # lower''))))
                    else
                      (case increase_loop ops available_power lower of
                         (x, lower') \<Rightarrow> (x, e' # lower')))
                 else
                   (case increase_loop ops (Some result) lower of
                      (x, lower') \<Rightarrow> (x, e' # lower'))))"
  by pat_completeness auto
termination
  by (relation "measure (\<lambda>(ops, a, es). length es)")
     (auto dest: length_recover [OF sym])

subsection \<open>The balancer (lines 237--312)\<close>

text \<open>
  The three branches of \<^verbatim>\<open>evaluate\<close> on the two readings. The result is the exception
  raised, if any, and the equipment objects as the branch leaves them.
\<close>

definition balance ::
  "config \<Rightarrow> 'e equipment_ops \<Rightarrow> int \<Rightarrow> int \<Rightarrow> 'e list \<Rightarrow> error option \<times> 'e list" where
  "balance cfg ops power_production power_consumption equipments =
     (if power_consumption > power_production - MARGIN cfg then
        (let excess_power = power_consumption - (power_production - MARGIN cfg) in
         case deficit_loop ops excess_power (rev equipments) of
           (x, es', cs) \<Rightarrow> (None, rev es'))
      else if power_production - MARGIN cfg - power_consumption < BALANCE_THRESHOLD cfg then
        (None, equipments)
      else
        (let available_power = power_production - MARGIN cfg - power_consumption in
         increase_loop ops (Some available_power) equipments))"

subsection \<open>The module's globals (lines 68--76 and 174--176)\<close>

text \<open>
  What the module publishes on the broker, in order: the injection message for Domoticz
  (topic \<^verbatim>\<open>domoticz/in\<close>: the \<^verbatim>\<open>idx\<close> and the number whose \<^verbatim>\<open>str\<close> is the \<^verbatim>\<open>svalue\<close>;
  \<^verbatim>\<open>nvalue\<close> is always 0) and the status message (\<^verbatim>\<open>date\<close>, \<^verbatim>\<open>power_consumption\<close>,
  \<^verbatim>\<open>power_production\<close>, \<^verbatim>\<open>injection\<close> and, for each equipment, \<^verbatim>\<open>name\<close>,
  \<^verbatim>\<open>current_power\<close> with \<open>None\<close> for \<^verbatim>\<open>'unknown'\<close>, \<^verbatim>\<open>energy\<close>, \<^verbatim>\<open>forced\<close>; \<^verbatim>\<open>date_str\<close>
  is the same \<^verbatim>\<open>date\<close> formatted).
\<close>

datatype message =
  Domoticz string int
| Status real int int int "(string \<times> int option \<times> int \<times> bool) list"

text \<open>
  \<^verbatim>\<open>equipment_water_heater\<close> is one of the objects of \<^verbatim>\<open>equipments\<close> (lines 370--378):
  the record holds its position in the list, so that what is done to the water heater
  is done to that element. \<^verbatim>\<open>main\<close> puts it at position 0.
\<close>

record 'e regulation =
  last_evaluation_date :: "real option"
  last_injection :: int
  power_production :: "int option"
  power_consumption :: "int option"
  equipments :: "'e list"
  equipment_water_heater :: nat
  ECS_energy_yesterday :: int
  ECS_energy_today :: int
  CLOUD_forecast :: pyval
  published :: "message list"

subsection \<open>The fallback (lines 178--196)\<close>

text \<open>
  \<^verbatim>\<open>/\<close> is Python's true division: it raises \<^verbatim>\<open>ZeroDivisionError\<close> on a zero divisor and
  otherwise gives the quotient, taken here as the exact real number.
\<close>

definition low_energy_fallback ::
  "config \<Rightarrow> 'e equipment_ops \<Rightarrow> 'e regulation \<Rightarrow> error option \<times> 'e regulation" where
  "low_energy_fallback cfg ops s =
     (let water_heater = equipments s ! equipment_water_heater s;
          max_power_wh = max_power ops water_heater
      in if ECS_energy_yesterday s + ECS_energy_today s < LOW_ECS_ENERGY_TWO_DAYS cfg
            \<and> ECS_energy_today s < LOW_ECS_ENERGY_TODAY cfg
         then
           if max_power_wh = 0 then (Some ZeroDivisionError, s)
           else
             (let duration =
                    real_of_int (3600 * (LOW_ECS_ENERGY_TODAY cfg - ECS_energy_today s))
                      / real_of_int max_power_wh
              in (None,
                  s\<lparr>equipments :=
                       (equipments s)[equipment_water_heater s :=
                          force ops water_heater (Some max_power_wh) (Some duration)],
                    ECS_energy_yesterday := ECS_energy_today s\<rparr>))
         else (None, s))"

subsection \<open>The day rollover (lines 212--222)\<close>

text \<open>The argument of \<^verbatim>\<open>log\<close> at line 214, a chain of three \<^verbatim>\<open>+\<close> from the left.\<close>

definition log_line_214 :: "pyval \<Rightarrow> int \<Rightarrow> error + pyval" where
  "log_line_214 cloud_forecast energy_today =
     (case py_add (PyStr ''[evaluate] Clouds / Production : '') cloud_forecast of
        Inl err \<Rightarrow> Inl err
      | Inr a \<Rightarrow>
          (case py_add a (PyStr ''% / '') of
             Inl err \<Rightarrow> Inl err
           | Inr b \<Rightarrow> py_add b (PyInt energy_today)))"

text \<open>
  \<open>weather\<close> is what \<^verbatim>\<open>weather.getCloudAvg(TOMORROW)\<close> answers. The result is the
  exception raised, if any, and the globals at that point.
\<close>

definition day_rollover ::
  "config \<Rightarrow> 'e equipment_ops \<Rightarrow> pyval \<Rightarrow> 'e regulation \<Rightarrow> error option \<times> 'e regulation" where
  "day_rollover cfg ops weather s =
     (let s1 = s\<lparr>ECS_energy_today :=
                   get_energy ops (equipments s ! equipment_water_heater s)\<rparr>
      in case log_line_214 (CLOUD_forecast s1) (ECS_energy_today s1) of
           Inl err \<Rightarrow> (Some err, s1)
         | Inr _ \<Rightarrow>
             (let s2 = s1\<lparr>CLOUD_forecast := weather\<rparr>;
                  s3 = s2\<lparr>equipments := map (reset_energy ops) (equipments s2)\<rparr>
              in low_energy_fallback cfg ops s3))"

subsection \<open>The injection and status messages (lines 316--348)\<close>

definition report_injection ::
  "config \<Rightarrow> int \<Rightarrow> int \<Rightarrow> 'e regulation \<Rightarrow> int \<times> 'e regulation" where
  "report_injection cfg production consumption s =
     (let injection = consumption - production in
      if injection < 0 then
        (injection,
         s\<lparr>published := published s @ [Domoticz (IDX_INJECTION cfg) injection],
           last_injection := injection\<rparr>)
      else
        (let injection = 0 in
         if last_injection s \<noteq> 0 then
           (injection,
            s\<lparr>published := published s @ [Domoticz (IDX_INJECTION cfg) injection],
              last_injection := injection\<rparr>)
         else (injection, s\<lparr>last_injection := injection\<rparr>)))"

definition publish_status ::
  "'e equipment_ops \<Rightarrow> real \<Rightarrow> int \<Rightarrow> int \<Rightarrow> int \<Rightarrow> 'e regulation \<Rightarrow> 'e regulation" where
  "publish_status ops t production consumption injection s =
     s\<lparr>published := published s @
         [Status t consumption production injection
            (map (\<lambda>e. (name ops e, get_current_power ops e, get_energy ops e, is_forced ops e))
                 (equipments s))]\<rparr>"

subsection \<open>\<^verbatim>\<open>evaluate\<close> (lines 198--352)\<close>

text \<open>
  How a call of \<^verbatim>\<open>evaluate\<close> ends: by the \<^verbatim>\<open>return\<close> of line 226, by the \<^verbatim>\<open>return\<close> of
  line 231, at the end of the \<^verbatim>\<open>try\<close> block, or in the \<^verbatim>\<open>except\<close> clause, which logs the
  exception and returns. The caller sees none of this: the call returns in every case.
\<close>

datatype outcome = Skipped | Deferred | Completed | Failed error

text \<open>
  Lines 207--226. \<open>day_of x\<close> is \<^verbatim>\<open>datetime.datetime.fromtimestamp(x).day\<close>, the day of
  the month in local time. \<open>None\<close>: the evaluation goes on.
\<close>

definition guards ::
  "config \<Rightarrow> 'e equipment_ops \<Rightarrow> (real \<Rightarrow> nat) \<Rightarrow> pyval \<Rightarrow> real \<Rightarrow> 'e regulation
     \<Rightarrow> outcome option \<times> 'e regulation" where
  "guards cfg ops day_of weather t s =
     (case last_evaluation_date s of
        None \<Rightarrow> (None, s)
      | Some last_date \<Rightarrow>
          (case (if day_of last_date \<noteq> day_of t then day_rollover cfg ops weather s
                 else (None, s)) of
             (Some err, s1) \<Rightarrow> (Some (Failed err), s1)
           | (None, s1) \<Rightarrow>
               if t - last_date < real_of_int (EVALUATION_PERIOD cfg) then (Some Skipped, s1)
               else (None, s1)))"

text \<open>\<open>t\<close> is the value of \<^verbatim>\<open>now_ts()\<close> at line 206.\<close>

definition evaluate ::
  "config \<Rightarrow> 'e equipment_ops \<Rightarrow> (real \<Rightarrow> nat) \<Rightarrow> pyval \<Rightarrow> real \<Rightarrow> 'e regulation
     \<Rightarrow> outcome \<times> 'e regulation" where
  "evaluate cfg ops day_of weather t s =
     (case guards cfg ops day_of weather t s of
        (Some out, s1) \<Rightarrow> (out, s1)
      | (None, s1) \<Rightarrow>
          (let s2 = s1\<lparr>last_evaluation_date := Some t\<rparr> in
           case power_production s2 of
             None \<Rightarrow> (Deferred, s2)
           | Some production \<Rightarrow>
               (case power_consumption s2 of
                  None \<Rightarrow> (Deferred, s2)
                | Some consumption \<Rightarrow>
                    (case balance cfg ops production consumption (equipments s2) of
                       (Some err, es) \<Rightarrow> (Failed err, s2\<lparr>equipments := es\<rparr>)
                     | (None, es) \<Rightarrow>
                         (case report_injection cfg production consumption
                                 (s2\<lparr>equipments := es\<rparr>) of
                            (injection, s3) \<Rightarrow>
                              (Completed,
                               publish_status ops t production consumption injection s3))))))"

subsection \<open>Telemetry (lines 135--142)\<close>

text \<open>
  A well-formed reading on one of the two sensor topics, after \<^verbatim>\<open>json.loads\<close> and
  \<^verbatim>\<open>int\<close>: \<^verbatim>\<open>on_message\<close> stores it and calls \<^verbatim>\<open>evaluate\<close>. The topic of manual control is not
  subscribed to (lines 87 and 124--127).
\<close>

datatype reading = Consumption int | Production int

definition on_message ::
  "config \<Rightarrow> 'e equipment_ops \<Rightarrow> (real \<Rightarrow> nat) \<Rightarrow> pyval \<Rightarrow> real \<Rightarrow> reading
     \<Rightarrow> 'e regulation \<Rightarrow> outcome \<times> 'e regulation" where
  "on_message cfg ops day_of weather t msg s =
     (case msg of
        Consumption watts \<Rightarrow>
          evaluate cfg ops day_of weather t (s\<lparr>power_consumption := Some watts\<rparr>)
      | Production watts \<Rightarrow>
          evaluate cfg ops day_of weather t (s\<lparr>power_production := Some watts\<rparr>))"

subsection \<open>An equipment for running examples\<close>

text \<open>
  Modelled from the spec: the classes of the module \<^verbatim>\<open>equipment\<close> are not part of the
  sources at hand. This stand-in follows the three variants of the spec's section 4.4:
  a constant-power load is on or off and answers an increase with what is left of the
  offer, negative when the offer is short of its draw; a variable-power load moves
  within 0 and its maximum; an unknown-power load confirms nothing and answers \<open>None\<close>.
  A forced load remembers the power and the duration it was forced with. The stand-in is
  used to run the loop on concrete lists only.
\<close>

datatype kind = ConstantPower | VariablePower | UnknownPower

record sim_equipment =
  sim_name :: string
  sim_kind :: kind
  sim_max_power :: int
  sim_power :: int
  sim_energy :: int
  sim_forced :: "(int \<times> real option) option"

definition sim_decrease :: "sim_equipment \<Rightarrow> int \<Rightarrow> int option \<times> sim_equipment" where
  "sim_decrease e watt =
     (case sim_kind e of
        UnknownPower \<Rightarrow> (None, e)
      | ConstantPower \<Rightarrow>
          if sim_power e > 0 then (Some (sim_power e), e\<lparr>sim_power := 0\<rparr>) else (Some 0, e)
      | VariablePower \<Rightarrow>
          (let decrease = min watt (sim_power e)
           in (Some decrease, e\<lparr>sim_power := sim_power e - decrease\<rparr>)))"

definition sim_increase :: "sim_equipment \<Rightarrow> int \<Rightarrow> int option \<times> sim_equipment" where
  "sim_increase e watt =
     (case sim_kind e of
        UnknownPower \<Rightarrow> (None, e)
      | ConstantPower \<Rightarrow>
          if sim_power e > 0 then (Some watt, e)
          else if watt \<ge> sim_max_power e
            then (Some (watt - sim_max_power e), e\<lparr>sim_power := sim_max_power e\<rparr>)
            else (Some (watt - sim_max_power e), e)
      | VariablePower \<Rightarrow>
          (let increase = min watt (sim_max_power e - sim_power e)
           in (Some (watt - increase), e\<lparr>sim_power := sim_power e + increase\<rparr>)))"

definition sim_ops :: "sim_equipment equipment_ops" where
  "sim_ops =
     \<lparr>name = sim_name,
      max_power = sim_max_power,
      is_forced = (\<lambda>e. sim_forced e \<noteq> None),
      get_current_power = (\<lambda>e. if sim_kind e = UnknownPower then None else Some (sim_power e)),
      get_energy = sim_energy,
      reset_energy = (\<lambda>e. e\<lparr>sim_energy := 0\<rparr>),
      force = (\<lambda>e power duration.
                 case power of None \<Rightarrow> e\<lparr>sim_forced := None\<rparr>
                 | Some p \<Rightarrow> e\<lparr>sim_forced := Some (p, duration), sim_power := p\<rparr>),
      decrease_power_by = sim_decrease,
      increase_power_by = sim_increase\<rparr>"

text \<open>An equipment that is not forced: name, variant, maximum power, power, energy.\<close>

definition sim :: "string \<Rightarrow> kind \<Rightarrow> int \<Rightarrow> int \<Rightarrow> int \<Rightarrow> sim_equipment" where
  "sim n k m p en =
     \<lparr>sim_name = n, sim_kind = k, sim_max_power = m, sim_power = p, sim_energy = en,
      sim_forced = None\<rparr>"

subsection \<open>Example configuration and start state\<close>

definition cfg_ex :: config where
  "cfg_ex =
     \<lparr>EVALUATION_PERIOD = 5, BALANCE_THRESHOLD = 20, MARGIN = 100,
      LOW_ECS_ENERGY_TWO_DAYS = 1000, LOW_ECS_ENERGY_TODAY = 300, IDX_INJECTION = ''42''\<rparr>"

text \<open>The globals as the module initialises them (lines 68--71 and 174--176).\<close>

definition start :: "'e list \<Rightarrow> 'e regulation" where
  "start es =
     \<lparr>last_evaluation_date = None, last_injection = - 1, power_production = None,
      power_consumption = None, equipments = es, equipment_water_heater = 0,
      ECS_energy_yesterday = 0, ECS_energy_today = 0, CLOUD_forecast = PyInt 999,
      published = []\<rparr>"

text \<open>A day of the month for the examples: day 1 lasts until second 86400, then day 2.\<close>

definition day_ex :: "real \<Rightarrow> nat" where
  "day_ex x = (if x < 86400 then 1 else 2)"

text \<open>
  A water heater alone, as in \<^verbatim>\<open>main\<close>, after a completed evaluation at second 100 that
  reported a zero injection.
\<close>

definition ecs :: sim_equipment where
  "ecs = sim ''ECS'' VariablePower 2000 500 250"

definition running :: "sim_equipment regulation" where
  "running =
     (start [ecs])\<lparr>last_evaluation_date := Some 100, last_injection := 0,
       power_production := Some 3000, power_consumption := Some 3500\<rparr>"

text \<open>
  Three readings in a row from the start state: production 3000 at second 100, then
  consumption 3500 at seconds 106 and 112.
\<close>

definition tick1 :: "sim_equipment regulation" where
  "tick1 = snd (on_message cfg_ex sim_ops day_ex (PyInt 50) 100 (Production 3000) (start [ecs]))"

definition tick2 :: "sim_equipment regulation" where
  "tick2 = snd (on_message cfg_ex sim_ops day_ex (PyInt 50) 106 (Consumption 3500) tick1)"

definition tick3 :: "sim_equipment regulation" where
  "tick3 = snd (on_message cfg_ex sim_ops day_ex (PyInt 50) 112 (Consumption 3500) tick2)"



text \<open>
  What the balancer may do to an equipment object: when the object is forced, nothing.
\<close>

definition untouched :: "'e equipment_ops \<Rightarrow> 'e \<Rightarrow> 'e \<Rightarrow> bool" where
  "untouched ops a b = (is_forced ops a \<longrightarrow> b = a)"

text \<open>A forced water heater above a pump.\<close>

definition forced_heater :: sim_equipment where
  "forced_heater = (sim ''ECS'' VariablePower 2000 1500 250)\<lparr>sim_forced := Some (1500, None)\<rparr>"

definition pump :: sim_equipment where
  "pump = sim ''pump'' VariablePower 1000 60 0"



text \<open>
  A full water heater above a constant-power charger that is off, two pumps and a plug
  of unknown power; the state a moment after an evaluation at second 100.
\<close>

definition bike :: sim_equipment where
  "bike = sim ''bike'' ConstantPower 150 0 0"


definition full_heater :: sim_equipment where
  "full_heater = sim ''ECS'' VariablePower 2000 2000 250"


text \<open>
  The assumption of C2 on one equipment object: asked to give up a positive power, it
  answers \<^verbatim>\<open>None\<close> or an amount between 0 and the power asked for.
\<close>

definition bounded_decrease :: "'e equipment_ops \<Rightarrow> 'e \<Rightarrow> bool" where
  "bounded_decrease ops e =
     (\<forall>w r e'. 0 < w \<longrightarrow> decrease_power_by ops e w = (Some r, e') \<longrightarrow> 0 \<le> r \<and> r \<le> w)"



section \<open>Properties\<close>

subsection \<open>The balanced branch\<close>

text \<open>
  C9. If \<open>0 \<le> (production - margin) - consumption < balance_threshold\<close>, the balancer
  takes the balanced branch: it raises nothing and leaves every equipment object as it
  was, whatever the methods of the equipment would do; no method, \<^verbatim>\<open>force\<close> included, is
  called. In particular this holds when consumption equals \<open>production - margin\<close> and the
  threshold is positive.
\<close>

theorem balanced_branch_no_action:
  "(0 \<le> production - MARGIN cfg - consumption
      \<and> production - MARGIN cfg - consumption < BALANCE_THRESHOLD cfg
      \<longrightarrow> balance cfg ops production consumption eqs = (None, eqs))
   \<and> (consumption = production - MARGIN cfg \<and> 0 < BALANCE_THRESHOLD cfg
      \<longrightarrow> balance cfg ops production consumption eqs = (None, eqs))"
  by (simp add: balance_def)

theorem balanced_branch_no_action_witness:
  "(0 \<le> 3000 - MARGIN cfg_ex - 2890 \<and> 3000 - MARGIN cfg_ex - 2890 < BALANCE_THRESHOLD cfg_ex)
   \<and> balance cfg_ex sim_ops 3000 2890 [ecs]
       = (None, [ecs])
   \<and> (2900 = 3000 - MARGIN cfg_ex \<and> 0 < BALANCE_THRESHOLD cfg_ex)
   \<and> balance cfg_ex sim_ops 3000 2900 [ecs]
       = (None, [ecs])"
  using balanced_branch_no_action
          [of 3000 cfg_ex 2890 sim_ops "[ecs]"]
        balanced_branch_no_action
          [of 3000 cfg_ex 2900 sim_ops "[ecs]"]
  by (simp add: cfg_ex_def)

subsection \<open>The rate limit\<close>

lemma last_date_report_injection:
  "last_evaluation_date (snd (report_injection cfg p c s)) = last_evaluation_date s"
  by (simp add: report_injection_def Let_def)

text \<open>
  C8. When a previous evaluation exists, the day of the month is the same and fewer than
  \<^verbatim>\<open>EVALUATION_PERIOD\<close> seconds have passed since \<^verbatim>\<open>last_evaluation_date\<close>, \<^verbatim>\<open>evaluate\<close>
  returns at line 226 and every global, every equipment object and the list of published
  messages are what they were. When no previous evaluation exists the guard does not
  apply: the call does not end at line 226 and \<^verbatim>\<open>last_evaluation_date\<close> becomes \<open>t\<close>.
\<close>

theorem rate_limit_guard:
  "(last_evaluation_date s = Some l \<and> day_of l = day_of t
      \<and> t - l < real_of_int (EVALUATION_PERIOD cfg)
      \<longrightarrow> evaluate cfg ops day_of weather t s = (Skipped, s))
   \<and> (last_evaluation_date s = None
      \<longrightarrow> fst (evaluate cfg ops day_of weather t s) \<noteq> Skipped
          \<and> last_evaluation_date (snd (evaluate cfg ops day_of weather t s)) = Some t)"
proof (intro conjI impI)
  assume "last_evaluation_date s = Some l \<and> day_of l = day_of t
      \<and> t - l < real_of_int (EVALUATION_PERIOD cfg)"
  then show "evaluate cfg ops day_of weather t s = (Skipped, s)"
    by (simp add: evaluate_def guards_def)
next
  assume n: "last_evaluation_date s = None"
  then have g: "guards cfg ops day_of weather t s = (None, s)"
    by (simp add: guards_def)
  show "fst (evaluate cfg ops day_of weather t s) \<noteq> Skipped"
    using g by (simp add: evaluate_def Let_def split: option.splits prod.splits)
  show "last_evaluation_date (snd (evaluate cfg ops day_of weather t s)) = Some t"
    using g
    by (auto simp add: evaluate_def Let_def publish_status_def report_injection_def
             split: option.splits prod.splits if_splits)
qed

theorem rate_limit_guard_witness:
  "(last_evaluation_date running = Some 100 \<and> day_ex 100 = day_ex 102
      \<and> 102 - 100 < real_of_int (EVALUATION_PERIOD cfg_ex))
   \<and> evaluate cfg_ex sim_ops day_ex (PyInt 50) 102 running = (Skipped, running)
   \<and> last_evaluation_date (start [ecs]) = None
   \<and> fst (evaluate cfg_ex sim_ops day_ex (PyInt 50) 102 (start [ecs])) \<noteq> Skipped
   \<and> last_evaluation_date (snd (evaluate cfg_ex sim_ops day_ex (PyInt 50) 102 (start [ecs])))
       = Some 102"
  using rate_limit_guard [of running 100 day_ex 102 cfg_ex sim_ops "PyInt 50"]
        rate_limit_guard [of "start [ecs]" 100 day_ex 102 cfg_ex sim_ops "PyInt 50"]
  by (simp add: running_def start_def day_ex_def cfg_ex_def)

subsection \<open>The injection message\<close>

lemma tick1_eq:
  "tick1 = (start [ecs])\<lparr>last_evaluation_date := Some 100, power_production := Some 3000\<rparr>"
  by (simp add: tick1_def on_message_def evaluate_def guards_def start_def)

lemma tick2_eq:
  "tick2 =
     (start [ecs\<lparr>sim_power := 0\<rparr>])
       \<lparr>last_evaluation_date := Some 106, power_production := Some 3000,
        power_consumption := Some 3500, last_injection := 0,
        published :=
          [Domoticz ''42'' 0, Status 106 3500 3000 0 [(''ECS'', Some 0, 250, False)]]\<rparr>"
  by (simp add: tick2_def tick1_eq on_message_def evaluate_def guards_def start_def
        cfg_ex_def day_ex_def balance_def sim_ops_def sim_decrease_def ecs_def sim_def
        report_injection_def publish_status_def Let_def)

text \<open>
  C6, as stated, fails: with production 3000 and consumption 3500 the difference
  \<open>consumption - production\<close> is 500, yet the first completed evaluation publishes the
  injection 0 and the next one publishes no injection message at all.
\<close>

theorem injection_counterexample:
  "power_consumption tick2 = Some 3500 \<and> power_production tick2 = Some 3000
   \<and> (3500::int) - 3000 \<noteq> 0
   \<and> published tick1 = []
   \<and> published tick2 =
       [Domoticz ''42'' 0, Status 106 3500 3000 0 [(''ECS'', Some 0, 250, False)]]
   \<and> published tick3 =
       published tick2 @ [Status 112 3500 3000 0 [(''ECS'', Some 0, 250, False)]]
   \<and> Domoticz ''42'' (3500 - 3000) \<notin> set (published tick3)"
  unfolding tick3_def tick2_eq tick1_eq
  by (simp add: on_message_def evaluate_def guards_def start_def cfg_ex_def day_ex_def
        balance_def sim_ops_def sim_decrease_def ecs_def sim_def report_injection_def
        publish_status_def Let_def)

text \<open>
  C6, amended. The injection computed at lines 316--328 is \<open>consumption - production\<close>
  when that is negative and 0 otherwise. A negative injection is published every time;
  the injection 0 is published only when \<^verbatim>\<open>last_injection\<close> is not 0. \<^verbatim>\<open>last_injection\<close>
  becomes the injection, and nothing else changes.
\<close>

theorem injection_report:
  "fst (report_injection cfg production consumption s) = min (consumption - production) 0
   \<and> snd (report_injection cfg production consumption s) =
       s\<lparr>published := published s @
            (if consumption - production < 0 \<or> last_injection s \<noteq> 0
             then [Domoticz (IDX_INJECTION cfg) (min (consumption - production) 0)]
             else []),
         last_injection := min (consumption - production) 0\<rparr>"
  by (simp add: report_injection_def Let_def min_def)

theorem injection_report_witness:
  "fst (report_injection cfg_ex 3000 2000 running) = - 1000
   \<and> published (snd (report_injection cfg_ex 3000 2000 running)) = [Domoticz ''42'' (- 1000)]
   \<and> published (snd (report_injection cfg_ex 3000 3500 running)) = []
   \<and> published (snd (report_injection cfg_ex 3000 3500 (running\<lparr>last_injection := - 1000\<rparr>)))
       = [Domoticz ''42'' 0]"
  using injection_report [of cfg_ex 3000 2000 running]
        injection_report [of cfg_ex 3000 3500 running]
        injection_report [of cfg_ex 3000 3500 "running\<lparr>last_injection := - 1000\<rparr>"]
  by (simp add: running_def start_def cfg_ex_def)

subsection \<open>The fallback policy\<close>



subsection \<open>Forced equipment\<close>

lemma untouched_same [simp]: "untouched ops a a"
  by (simp add: untouched_def)

lemma untouched_not_forced [simp]: "\<not> is_forced ops a \<Longrightarrow> untouched ops a b"
  by (simp add: untouched_def)

lemma untouched_refl [simp]: "list_all2 (untouched ops) es es"
  by (rule list_all2_refl) simp

lemma untouched_trans:
  "list_all2 (untouched ops) as bs \<Longrightarrow> list_all2 (untouched ops) bs cs
   \<Longrightarrow> list_all2 (untouched ops) as cs"
proof (rule list_all2_trans)
  show "untouched ops a b \<Longrightarrow> untouched ops b c \<Longrightarrow> untouched ops a c" for a b c
    by (auto simp: untouched_def)
qed

lemma deficit_loop_untouched:
  "deficit_loop ops x es = (x', es', cs) \<Longrightarrow> list_all2 (untouched ops) es es'"
proof (induction es arbitrary: x x' es' cs)
  case Nil
  then show ?case by simp
next
  case (Cons e es)
  then show ?case
    by (auto simp: Let_def split: if_splits prod.splits option.splits)
qed

lemma recover_loop_untouched:
  "recover_loop ops f n os = (r, os') \<Longrightarrow> list_all2 (untouched ops) os os'"
proof (induction os arbitrary: f n r os')
  case Nil
  then show ?case by simp
next
  case (Cons e es)
  then show ?case
    by (auto simp: Let_def split: if_splits prod.splits option.splits)
qed

lemma recover_untouched:
  "recover ops n lower = (r, lower') \<Longrightarrow> list_all2 (untouched ops) lower lower'"
  using recover_loop_untouched [of ops 0 n "rev lower"]
  by (auto simp: recover_def list_all2_rev1 split: prod.splits)

lemma increase_loop_untouched:
  "increase_loop ops a es = (x, es') \<Longrightarrow> list_all2 (untouched ops) es es'"
proof (induction ops a es arbitrary: x es' rule: increase_loop.induct)
  case (1 ops available_power)
  then show ?case by simp
next
  case (2 ops available_power e lower)
  from "2.prems" show ?case
    apply (simp split: option.splits if_splits prod.splits sum.splits add: Let_def)
    using "2.IH" 
    apply (auto intro: untouched_trans [OF recover_untouched])
    done
qed

lemma balance_untouched:
  "balance cfg ops p c eqs = (err, eqs') \<Longrightarrow> list_all2 (untouched ops) eqs eqs'"
  by (auto simp: balance_def Let_def list_all2_rev1 split: if_splits prod.splits
           dest: deficit_loop_untouched increase_loop_untouched)

lemma freeable_power_filter:
  "freeable_power ops os = freeable_power ops (filter (\<lambda>o'. \<not> is_forced ops o') os)"
  by (induction os) (auto split: option.splits)

text \<open>
  C1. Whatever the methods of the equipment do, whatever the readings and the
  configuration, and whether or not the balancer ends by an exception: an equipment
  object that is forced when the balancer starts is the same object state when it ends,
  so its current power and its energy are what they were. The deficit pass, the excess
  pass and the recovery pass make no call on it, and the sum of freeable power leaves it
  out.
\<close>

theorem forced_equipment_untouched:
  assumes "balance cfg ops production consumption eqs = (err, eqs')"
    and "k < length eqs" and "is_forced ops (eqs ! k)"
  shows "length eqs' = length eqs \<and> eqs' ! k = eqs ! k
     \<and> get_current_power ops (eqs' ! k) = get_current_power ops (eqs ! k)
     \<and> get_energy ops (eqs' ! k) = get_energy ops (eqs ! k)
     \<and> freeable_power ops eqs = freeable_power ops (filter (\<lambda>e. \<not> is_forced ops e) eqs)"
proof -
  have rel: "list_all2 (untouched ops) eqs eqs'"
    using assms(1) by (rule balance_untouched)
  then have len: "length eqs' = length eqs"
    by (simp add: list_all2_lengthD)
  have "untouched ops (eqs ! k) (eqs' ! k)"
    using rel assms(2) by (rule list_all2_nthD)
  then have same: "eqs' ! k = eqs ! k"
    using assms(3) by (simp add: untouched_def)
  show ?thesis
    using len same freeable_power_filter [of ops eqs] by simp
qed

lemma deficit_example:
  "balance cfg_ex sim_ops 3000 3500 [forced_heater, pump] = (None, [forced_heater, pump\<lparr>sim_power := 0\<rparr>])"
  by (simp add: balance_def cfg_ex_def sim_ops_def sim_decrease_def forced_heater_def pump_def sim_def Let_def)

lemma excess_example:
  "balance cfg_ex sim_ops 3000 2000 [forced_heater, pump] = (None, [forced_heater, pump\<lparr>sim_power := 960\<rparr>])"
  by (simp add: balance_def cfg_ex_def sim_ops_def sim_increase_def forced_heater_def pump_def sim_def Let_def)

theorem forced_equipment_untouched_witness:
  "balance cfg_ex sim_ops 3000 3500 [forced_heater, pump]
     = (None, [forced_heater, pump\<lparr>sim_power := 0\<rparr>])
   \<and> balance cfg_ex sim_ops 3000 2000 [forced_heater, pump]
     = (None, [forced_heater, pump\<lparr>sim_power := 960\<rparr>])
   \<and> (0::nat) < length [forced_heater, pump]
   \<and> is_forced sim_ops ([forced_heater, pump] ! 0)
   \<and> [forced_heater, pump\<lparr>sim_power := 0\<rparr>] ! 0 = [forced_heater, pump] ! 0
   \<and> get_current_power sim_ops ([forced_heater, pump\<lparr>sim_power := 960\<rparr>] ! 0) = Some 1500
   \<and> freeable_power sim_ops [forced_heater, pump] = 60"
proof -
  have f: "is_forced sim_ops ([forced_heater, pump] ! 0)"
    by (simp add: sim_ops_def forced_heater_def)
  show ?thesis
    using forced_equipment_untouched [OF deficit_example _ f]
          forced_equipment_untouched [OF excess_example _ f] deficit_example excess_example f
    by (simp add: sim_ops_def forced_heater_def pump_def sim_def)
qed

subsection \<open>The day rollover\<close>












subsection \<open>Failures inside an evaluation\<close>








subsection \<open>A \<^verbatim>\<open>None\<close> answer in the recovery loop\<close>




subsection \<open>Recovery in the excess pass\<close>

lemma recover_loop_bounds:
  "\<forall>o'\<in>set os. \<not> is_forced ops o' \<longrightarrow> bounded_decrease ops o' \<Longrightarrow> 0 < n
   \<Longrightarrow> recover_loop ops f n os = (Inr f1, os') \<Longrightarrow> f \<le> f1 \<and> f1 - f \<le> n"
proof (induction os arbitrary: f n os')
  case Nil
  then show ?case by simp
next
  case (Cons e os)
  show ?case
  proof (cases "is_forced ops e")
    case True
    with Cons.prems obtain p where "recover_loop ops f n os = (Inr f1, p)"
      by (auto split: prod.splits)
    with Cons.IH [of n f p] Cons.prems show ?thesis by simp
  next
    case False
    with Cons.prems obtain r e' where
      d: "decrease_power_by ops e n = (Some r, e')"
      by (auto simp: Let_def split: prod.splits option.splits if_splits)
    with False Cons.prems have r: "0 \<le> r" "r \<le> n"
      by (auto simp: bounded_decrease_def)
    show ?thesis
    proof (cases "n - r \<le> 0")
      case True
      with False d Cons.prems(3) have "f1 = f + r" by (simp add: Let_def)
      with r show ?thesis by simp
    next
      case pos: False
      with False d Cons.prems(3) obtain p where
        "recover_loop ops (f + r) (n - r) os = (Inr f1, p)"
        by (auto simp: Let_def split: prod.splits)
      with Cons.IH [of "n - r" "f + r" p] Cons.prems(1) pos r show ?thesis by simp
    qed
  qed
qed

lemma variable_bounded:
  "sim_kind e = VariablePower \<Longrightarrow> 0 \<le> sim_power e \<Longrightarrow> bounded_decrease sim_ops e"
  by (auto simp: bounded_decrease_def sim_ops_def sim_decrease_def Let_def)

lemma retry_example:
  "balance cfg_ex sim_ops 3000 2800 [full_heater, bike, pump] =
     (None, [full_heater, bike\<lparr>sim_power := 150\<rparr>, pump\<lparr>sim_power := 10\<rparr>])"
  by (simp add: balance_def cfg_ex_def sim_ops_def sim_increase_def
        sim_decrease_def recover_def full_heater_def bike_def pump_def sim_def Let_def)

text \<open>
  C3, as stated, fails: 100 W are available, the charger needs 150 W and answers
  \<open>- 50\<close>; the pump below it uses 60 W, so 60 W are freeable; 50 W are recovered and the
  charger is offered \<open>100 + 50\<close> W, which it takes. Its power rises by 150 W, more than
  the 60 W that were freeable.
\<close>

theorem recovered_power_counterexample:
  "balance cfg_ex sim_ops 3000 2800 [full_heater, bike, pump] =
     (None, [full_heater, bike\<lparr>sim_power := 150\<rparr>, pump\<lparr>sim_power := 10\<rparr>])
   \<and> increase_power_by sim_ops full_heater 100 = (Some 100, full_heater)
   \<and> increase_power_by sim_ops bike 100 = (Some (- 50), bike)
   \<and> freeable_power sim_ops [pump] = 60
   \<and> recover sim_ops 50 [pump] = (Inr 50, [pump\<lparr>sim_power := 10\<rparr>])
   \<and> increase_power_by sim_ops bike (100 + 50) = (Some 0, bike\<lparr>sim_power := 150\<rparr>)
   \<and> sim_power (bike\<lparr>sim_power := 150\<rparr>) - sim_power bike = 150
   \<and> \<not> (100 + 50 \<le> freeable_power sim_ops [pump])
   \<and> \<not> (sim_power (bike\<lparr>sim_power := 150\<rparr>) - sim_power bike \<le> freeable_power sim_ops [pump])"
  by (simp add: retry_example)
     (simp add: sim_ops_def sim_increase_def sim_decrease_def recover_def full_heater_def
        bike_def pump_def sim_def Let_def)

text \<open>
  C3, amended. When every lower-priority equipment answers a request to decrease by a
  positive power with \<^verbatim>\<open>None\<close> or an amount between 0 and the request, and the recovery
  loop ends without exception, the power it has freed is between 0 and the needed power,
  which is at most the freeable power. The blocked equipment is then offered the
  available power plus the freed power, and the pass goes on with what it answers.
\<close>

theorem recovered_power_bounded:
  assumes "\<forall>o'\<in>set lower. \<not> is_forced ops o' \<longrightarrow> bounded_decrease ops o'"
    and "0 < available" and "\<not> is_forced ops e"
    and "increase_power_by ops e available = (Some result, e')" and "result < 0"
    and "- result \<le> freeable_power ops lower"
    and "recover ops (- result) lower = (Inr freed_power, lower')"
  shows "0 \<le> freed_power \<and> freed_power \<le> - result
     \<and> freed_power \<le> freeable_power ops lower
     \<and> increase_loop ops (Some available) (e # lower) =
         (case increase_power_by ops e' (available + freed_power) of
            (available_power', e'') \<Rightarrow>
              (case increase_loop ops available_power' lower' of
                 (x, lower'') \<Rightarrow> (x, e'' # lower'')))"
proof -
  from assms(7) obtain os' where
    "recover_loop ops 0 (- result) (rev lower) = (Inr freed_power, os')"
    by (auto simp: recover_def split: prod.splits)
  with recover_loop_bounds [of "rev lower" ops "- result" 0 freed_power os'] assms(1,5)
  have b: "0 \<le> freed_power \<and> freed_power \<le> - result" by simp
  with assms(6) have "freed_power \<le> freeable_power ops lower" by simp
  moreover have "increase_loop ops (Some available) (e # lower) =
         (case increase_power_by ops e' (available + freed_power) of
            (available_power', e'') \<Rightarrow>
              (case increase_loop ops available_power' lower' of
                 (x, lower'') \<Rightarrow> (x, e'' # lower'')))"
    using assms(2-7) by (simp add: Let_def)
  ultimately show ?thesis using b by simp
qed

theorem recovered_power_bounded_witness:
  "increase_power_by sim_ops bike 100 = (Some (- 50), bike)
   \<and> - (- 50) \<le> freeable_power sim_ops [pump]
   \<and> recover sim_ops (- (- 50)) [pump] = (Inr 50, [pump\<lparr>sim_power := 10\<rparr>])
   \<and> (50::int) \<le> 60
   \<and> increase_loop sim_ops (Some 100) (bike # [pump]) =
       (None, [bike\<lparr>sim_power := 150\<rparr>, pump\<lparr>sim_power := 10\<rparr>])"
proof -
  have h: "\<forall>o'\<in>set [pump]. \<not> is_forced sim_ops o' \<longrightarrow> bounded_decrease sim_ops o'"
    by (simp add: variable_bounded pump_def sim_def)
  have nf: "\<not> is_forced sim_ops bike"
    by (simp add: sim_ops_def bike_def sim_def)
  have i: "increase_power_by sim_ops bike 100 = (Some (- 50), bike)"
    by (simp add: sim_ops_def sim_increase_def bike_def sim_def)
  have fr: "- (- 50) \<le> freeable_power sim_ops [pump]"
    by (simp add: sim_ops_def pump_def sim_def)
  have rec: "recover sim_ops (- (- 50)) [pump] = (Inr 50, [pump\<lparr>sim_power := 10\<rparr>])"
    by (simp add: recover_def sim_ops_def sim_decrease_def pump_def sim_def Let_def)
  have retry: "increase_power_by sim_ops bike (100 + 50) = (Some 0, bike\<lparr>sim_power := 150\<rparr>)"
    by (simp add: sim_ops_def sim_increase_def bike_def sim_def)
  show ?thesis
    using recovered_power_bounded [OF h _ nf i _ fr rec] i fr rec retry
    by (simp add: sim_ops_def pump_def sim_def)
qed

subsection \<open>The deficit pass\<close>










end
